theory Spec2Isabelle
  imports Complex_Main "HOL-Library.Sublist"
begin

section \<open>Strings, Unicode tables and module state\<close>

text \<open>
  A Python \<open>str\<close> is a sequence of Unicode code points; \<open>len\<close> counts code points
  and \<open>ord\<close> reads one. A code point is modelled as a natural number and a string as a
  list of code points, so \<open>len(s)\<close> is \<open>length s\<close> and \<open>ord(s[i])\<close> is \<open>s ! i\<close>.
\<close>

type_synonym codepoint = nat
type_synonym str = "codepoint list"

text \<open>A string literal of the source, as the list of its code points.\<close>

definition lit :: "string \<Rightarrow> str" where
  "lit cs = map of_char cs"

text \<open>
  Four operations of \<open>src/app.py\<close> consult the Unicode database of the Python runtime,
  which is not part of the repository. They are taken as parameters:
  \<^item> \<open>str_lower\<close>: \<open>str.lower()\<close>, a function on whole strings (it may change the
    length and looks at context for the final sigma);
  \<^item> \<open>re_digit\<close>: the code points a \<open>\d\<close> of \<open>re\<close> matches in a \<open>str\<close> pattern (the
    decimal digits of Unicode, not only \<open>0-9\<close>);
  \<^item> \<open>re_space\<close>: the code points \<open>\s\<close> matches;
  \<^item> \<open>str_isdigit\<close>: \<open>str.isdigit()\<close> on a string of one code point.
  Every theorem below holds for any such tables.
\<close>

record unicode =
  str_lower :: "str \<Rightarrow> str"
  re_digit :: "codepoint \<Rightarrow> bool"
  re_space :: "codepoint \<Rightarrow> bool"
  str_isdigit :: "codepoint \<Rightarrow> bool"

text \<open>
  The tables of CPython restricted to the code points below 256 (above, \<open>latin1\<close>
  leaves a code point unchanged and in no class). It is the instance at which the
  definitions are run on concrete passwords, all of which are ASCII.
\<close>

definition lower_cp :: "codepoint \<Rightarrow> codepoint" where
  "lower_cp c =
     (if 65 \<le> c \<and> c \<le> 90 then c + 32
      else if 192 \<le> c \<and> c \<le> 222 \<and> c \<noteq> 215 then c + 32
      else c)"

definition latin1 :: unicode where
  "latin1 = \<lparr>
     str_lower = map lower_cp,
     re_digit = (\<lambda>c. 48 \<le> c \<and> c \<le> 57),
     re_space = (\<lambda>c. c \<in> set [9, 10, 11, 12, 13, 28, 29, 30, 31, 32, 133, 160]),
     str_isdigit = (\<lambda>c. 48 \<le> c \<and> c \<le> 57 \<or> c \<in> set [178, 179, 185]) \<rparr>"


text \<open>
  The two module-level names the function reads. Python looks a global up in the module
  at the time of the call, so the function takes the module state as an argument;
  \<open>app_module\<close> is the state after import.
\<close>

record module =
  COMMON_PASSWORDS :: "str set"
  KEYBOARD_WALKS :: "str list"

definition app_module :: module where
  "app_module = \<lparr>
     COMMON_PASSWORDS = set (map lit
       [''password'', ''password1'', ''123456'', ''12345678'', ''qwerty'', ''abc123'',
        ''monkey'', ''1234567'', ''letmein'', ''trustno1'', ''dragon'', ''baseball'',
        ''iloveyou'', ''master'', ''sunshine'', ''ashley'', ''bailey'', ''passw0rd'',
        ''shadow'', ''123123'', ''654321'', ''superman'', ''qazwsx'', ''michael'',
        ''football'', ''password123'', ''admin'', ''welcome'', ''login'', ''hello'',
        ''charlie'', ''donald'', ''password2'', ''qwerty123'', ''123qwe'']),
     KEYBOARD_WALKS = map lit
       [''qwerty'', ''asdfgh'', ''zxcvbn'', ''qwertyu'', ''asdfghj'', ''zxcvbnm'',
        ''1234567'', ''abcdefg'', ''7654321'', ''gfedcba'', ''aaaaaaa'', ''1111111''] \<rparr>"

section \<open>Regular expressions of the source\<close>

text \<open>\<open>re.search(r"[a-z]", s)\<close>: some code point of \<open>s\<close> is in \<open>a..z\<close>.\<close>

definition has_lower :: "str \<Rightarrow> bool" where
  "has_lower s = (\<exists>c \<in> set s. 97 \<le> c \<and> c \<le> 122)"

text \<open>\<open>re.search(r"[A-Z]", s)\<close>.\<close>

definition has_upper :: "str \<Rightarrow> bool" where
  "has_upper s = (\<exists>c \<in> set s. 65 \<le> c \<and> c \<le> 90)"

text \<open>\<open>re.search(r"\d", s)\<close>.\<close>

definition has_digit :: "unicode \<Rightarrow> str \<Rightarrow> bool" where
  "has_digit U s = (\<exists>c \<in> set s. re_digit U c)"

text \<open>
  The character class of \<open>special_pattern\<close>, in the order of the pattern:
  \<^verbatim>\<open>! @ # $ % ^ & * ( ) , . ? " : { } | < > _ - + = [ ] \ ; ' / ` ~\<close>
\<close>

definition special_chars :: "codepoint list" where
  "special_chars =
     [33, 64, 35, 36, 37, 94, 38, 42, 40, 41, 44, 46, 63, 34, 58, 123, 125, 124, 60, 62,
      95, 45, 43, 61, 91, 93, 92, 59, 39, 47, 96, 126]"

definition is_special :: "codepoint \<Rightarrow> bool" where
  "is_special c = (c \<in> set special_chars)"

text \<open>\<open>re.search(special_pattern, s)\<close> and \<open>re.findall(special_pattern, s)\<close>.\<close>

definition has_special :: "str \<Rightarrow> bool" where
  "has_special s = (\<exists>c \<in> set s. is_special c)"

definition findall_special :: "str \<Rightarrow> codepoint list" where
  "findall_special s = filter is_special s"

text \<open>\<open>re.search(r"\s", s)\<close>.\<close>

definition has_space :: "unicode \<Rightarrow> str \<Rightarrow> bool" where
  "has_space U s = (\<exists>c \<in> set s. re_space U c)"

text \<open>
  \<open>re.search(r"(.)\1{2,}", s)\<close>: three equal code points in a row; without the
  \<open>DOTALL\<close> flag the dot matches any code point but the newline (10).
\<close>

fun has_repeat :: "str \<Rightarrow> bool" where
  "has_repeat (a # b # c # s) = ((a \<noteq> 10 \<and> b = a \<and> c = a) \<or> has_repeat (b # c # s))"
| "has_repeat _ = False"

text \<open>\<open>needle in haystack\<close> on strings: \<open>needle\<close> occurs as a contiguous substring.\<close>

fun str_in :: "str \<Rightarrow> str \<Rightarrow> bool" where
  "str_in needle [] = (needle = [])"
| "str_in needle (c # cs) = (take (length needle) (c # cs) = needle \<or> str_in needle cs)"

section \<open>Entropy\<close>

text \<open>
  \<open>calculate_entropy\<close>. A Python \<open>float\<close> is read as a real number and \<open>math.log2\<close>
  as the logarithm to base 2.
\<close>

definition charset_size :: "unicode \<Rightarrow> str \<Rightarrow> nat" where
  "charset_size U password =
     (let charset = 0;
          charset = (if has_lower password then charset + 26 else charset);
          charset = (if has_upper password then charset + 26 else charset);
          charset = (if has_digit U password then charset + 10 else charset);
          charset = (if has_special password then charset + 32 else charset)
      in charset)"

definition calculate_entropy :: "unicode \<Rightarrow> str \<Rightarrow> real" where
  "calculate_entropy U password =
     (let charset = charset_size U password
      in if charset = 0 then 0 else real (length password) * log 2 (real charset))"

text \<open>\<open>round(x, 2)\<close>: to the nearest hundredth, a tie to the even one.\<close>

definition round2 :: "real \<Rightarrow> real" where
  "round2 x =
     (let y = x * 100; f = \<lfloor>y\<rfloor>; d = y - of_int f
      in of_int (if d < 1 / 2 then f else if 1 / 2 < d then f + 1
                 else if even f then f else f + 1) / 100)"

section \<open>The rule battery\<close>

text \<open>
  The messages of the source, one constructor each. The entropy message embeds the
  entropy; the constructor carries the value that is formatted.
\<close>

datatype error =
    TooShort | TooLong | NoUpper | NoLower | NoDigit | NoSpecial | TooCommon
  | Repeated | HasWhitespace | FewClasses | LowEntropy real

datatype warning = Sequential | KeyboardWalk | EdgeDigit

datatype strength = Weak | VeryStrong | Strong | Moderate

datatype exn = IndexError

text \<open>
  The local variables \<open>errors\<close>, \<open>warnings\<close> and \<open>score\<close> of \<open>validate_password\<close>;
  the returned dictionary has these three keys and three more.
\<close>

record locals =
  errors :: "error list"
  warnings :: "warning list"
  score :: int

record verdict = locals +
  valid :: bool
  strength :: strength
  entropy :: real

definition rule1_min_length :: "str \<Rightarrow> locals \<Rightarrow> locals" where
  "rule1_min_length password st =
     (if length password < 12 then st\<lparr>errors := errors st @ [TooShort]\<rparr>
      else if 16 \<le> length password then st\<lparr>score := score st + 20\<rparr>
      else st\<lparr>score := score st + 10\<rparr>)"

definition rule2_max_length :: "str \<Rightarrow> locals \<Rightarrow> locals" where
  "rule2_max_length password st =
     (if 128 < length password then st\<lparr>errors := errors st @ [TooLong]\<rparr> else st)"

definition rule3_uppercase :: "str \<Rightarrow> locals \<Rightarrow> locals" where
  "rule3_uppercase password st =
     (if \<not> has_upper password then st\<lparr>errors := errors st @ [NoUpper]\<rparr>
      else st\<lparr>score := score st + 10\<rparr>)"

definition rule4_lowercase :: "str \<Rightarrow> locals \<Rightarrow> locals" where
  "rule4_lowercase password st =
     (if \<not> has_lower password then st\<lparr>errors := errors st @ [NoLower]\<rparr>
      else st\<lparr>score := score st + 10\<rparr>)"

definition rule5_digit :: "unicode \<Rightarrow> str \<Rightarrow> locals \<Rightarrow> locals" where
  "rule5_digit U password st =
     (if \<not> has_digit U password then st\<lparr>errors := errors st @ [NoDigit]\<rparr>
      else st\<lparr>score := score st + 10\<rparr>)"

definition rule6_special :: "str \<Rightarrow> locals \<Rightarrow> locals" where
  "rule6_special password st =
     (if \<not> has_special password then st\<lparr>errors := errors st @ [NoSpecial]\<rparr>
      else st\<lparr>score := score st + 15\<rparr>)"

definition rule7_multiple_special :: "str \<Rightarrow> locals \<Rightarrow> locals" where
  "rule7_multiple_special password st =
     (if 2 \<le> length (findall_special password) then st\<lparr>score := score st + 5\<rparr> else st)"

definition rule8_blacklist :: "unicode \<Rightarrow> module \<Rightarrow> str \<Rightarrow> locals \<Rightarrow> locals" where
  "rule8_blacklist U M password st =
     (if str_lower U password \<in> COMMON_PASSWORDS M
      then st\<lparr>errors := errors st @ [TooCommon]\<rparr> else st)"

definition rule9_repeat :: "str \<Rightarrow> locals \<Rightarrow> locals" where
  "rule9_repeat password st =
     (if has_repeat password then st\<lparr>errors := errors st @ [Repeated]\<rparr>
      else st\<lparr>score := score st + 5\<rparr>)"

text \<open>
  The nested \<open>has_sequential(s, step)\<close>: the loop over \<open>i\<close> in \<open>range(len(s) - 2)\<close>
  looks at \<open>s[i]\<close>, \<open>s[i+1]\<close>, \<open>s[i+2]\<close> and returns at the first hit.
\<close>

fun has_sequential :: "str \<Rightarrow> int \<Rightarrow> bool" where
  "has_sequential (a # b # c # s) step =
     (if int b - int a = step \<and> int c - int b = step then True
      else has_sequential (b # c # s) step)"
| "has_sequential _ step = False"

definition rule10_sequential :: "unicode \<Rightarrow> str \<Rightarrow> locals \<Rightarrow> locals" where
  "rule10_sequential U password st =
     (if has_sequential (str_lower U password) 1 \<or> has_sequential password (- 1)
      then st\<lparr>warnings := warnings st @ [Sequential], score := max 0 (score st - 5)\<rparr>
      else st)"

text \<open>
  The \<open>for walk in KEYBOARD_WALKS\<close> loop: the first walk that matches appends the
  warning, deducts and leaves the loop (\<open>break\<close>).
\<close>

fun walk_loop :: "str \<Rightarrow> str list \<Rightarrow> locals \<Rightarrow> locals" where
  "walk_loop p_lower [] st = st"
| "walk_loop p_lower (walk # walks) st =
     (if str_in walk p_lower \<or> str_in (rev walk) p_lower
      then st\<lparr>warnings := warnings st @ [KeyboardWalk], score := max 0 (score st - 10)\<rparr>
      else walk_loop p_lower walks st)"

definition rule11_keyboard_walk :: "unicode \<Rightarrow> module \<Rightarrow> str \<Rightarrow> locals \<Rightarrow> locals" where
  "rule11_keyboard_walk U M password st =
     (let p_lower = str_lower U password in walk_loop p_lower (KEYBOARD_WALKS M) st)"

text \<open>
  Rule 12 indexes \<open>password[0]\<close> and \<open>password[-1]\<close>; on the empty string the first
  of them raises \<open>IndexError\<close>.
\<close>

definition rule12_edge_digit :: "unicode \<Rightarrow> str \<Rightarrow> locals \<Rightarrow> exn + locals" where
  "rule12_edge_digit U password st =
     (if password = [] then Inl IndexError
      else if str_isdigit U (hd password) \<or> str_isdigit U (last password)
      then Inr (st\<lparr>warnings := warnings st @ [EdgeDigit]\<rparr>)
      else Inr st)"

definition rule13_whitespace :: "unicode \<Rightarrow> str \<Rightarrow> locals \<Rightarrow> locals" where
  "rule13_whitespace U password st =
     (if has_space U password then st\<lparr>errors := errors st @ [HasWhitespace]\<rparr> else st)"

text \<open>\<open>sum\<close> of the four booleans.\<close>

definition classes :: "unicode \<Rightarrow> str \<Rightarrow> nat" where
  "classes U password =
     of_bool (has_lower password) + of_bool (has_upper password)
     + of_bool (has_digit U password) + of_bool (has_special password)"

definition rule14_classes :: "unicode \<Rightarrow> str \<Rightarrow> locals \<Rightarrow> locals" where
  "rule14_classes U password st =
     (if classes U password = 1 then st\<lparr>errors := errors st @ [FewClasses]\<rparr> else st)"

definition rule15_entropy :: "unicode \<Rightarrow> str \<Rightarrow> locals \<Rightarrow> locals" where
  "rule15_entropy U password st =
     (let entropy = calculate_entropy U password
      in if entropy < 50 then st\<lparr>errors := errors st @ [LowEntropy entropy]\<rparr>
         else if 80 \<le> entropy then st\<lparr>score := score st + 25\<rparr>
         else if 60 \<le> entropy then st\<lparr>score := score st + 15\<rparr>
         else st\<lparr>score := score st + 5\<rparr>)"

section \<open>The verdict\<close>

text \<open>The clamp of the score, the strength label and the returned dictionary.\<close>

definition clamp_score :: "int \<Rightarrow> int" where
  "clamp_score s = min 100 (max 0 s)"

definition strength_label :: "error list \<Rightarrow> int \<Rightarrow> strength" where
  "strength_label errs s =
     (if errs \<noteq> [] then Weak
      else if 85 \<le> s then VeryStrong
      else if 65 \<le> s then Strong
      else if 45 \<le> s then Moderate
      else Weak)"

definition compose_verdict :: "unicode \<Rightarrow> str \<Rightarrow> locals \<Rightarrow> verdict" where
  "compose_verdict U password st =
     (let s = clamp_score (score st)
      in \<lparr> errors = errors st, warnings = warnings st, score = s,
           valid = (length (errors st) = 0),
           strength = strength_label (errors st) s,
           entropy = round2 (calculate_entropy U password) \<rparr>)"

text \<open>Rules 1 to 11, which run before the edge-digit check, from the initial locals.\<close>

definition rules_1_to_11 :: "unicode \<Rightarrow> module \<Rightarrow> str \<Rightarrow> locals" where
  "rules_1_to_11 U M password =
     (rule11_keyboard_walk U M password
      (rule10_sequential U password
      (rule9_repeat password
      (rule8_blacklist U M password
      (rule7_multiple_special password
      (rule6_special password
      (rule5_digit U password
      (rule4_lowercase password
      (rule3_uppercase password
      (rule2_max_length password
      (rule1_min_length password
        \<lparr> errors = [], warnings = [], score = 0 \<rparr>)))))))))))"

text \<open>Rules 13 to 15, which run after it.\<close>

definition rules_13_to_15 :: "unicode \<Rightarrow> str \<Rightarrow> locals \<Rightarrow> locals" where
  "rules_13_to_15 U password st =
     rule15_entropy U password (rule14_classes U password (rule13_whitespace U password st))"

definition validate_password :: "unicode \<Rightarrow> module \<Rightarrow> str \<Rightarrow> exn + verdict" where
  "validate_password U M password =
     (case rule12_edge_digit U password (rules_1_to_11 U M password) of
        Inl e \<Rightarrow> Inl e
      | Inr st \<Rightarrow> Inr (compose_verdict U password (rules_13_to_15 U password st)))"

section \<open>The call on an explicit heap\<close>

text \<open>
  \<open>errors\<close> and \<open>warnings\<close> are list objects: \<open>[]\<close> allocates one, \<open>append\<close>
  changes it in place, and the returned dictionary refers to both. To speak of two
  invocations, the function is translated a second time, as a step on the interpreter
  state: the module globals, the heap of list objects and the allocator. A list holds
  message strings; \<open>Err\<close> and \<open>Warn\<close> tag which message it is.
\<close>

datatype message = Err error | Warn warning

type_synonym ref = nat

record interp =
  globals :: module
  heap :: "ref \<rightharpoonup> message list"
  next_ref :: ref

text \<open>The local variables of one call: two references and the integer \<open>score\<close>.\<close>

record frame =
  errors_ref :: ref
  warnings_ref :: ref
  score_var :: int

type_synonym config = "frame \<times> interp"

text \<open>\<open>[]\<close>: a new empty list at the next unused address.\<close>

definition new_list :: "interp \<Rightarrow> ref \<times> interp" where
  "new_list s =
     (next_ref s, s\<lparr>heap := (heap s)(next_ref s \<mapsto> []), next_ref := next_ref s + 1\<rparr>)"

definition list_get :: "interp \<Rightarrow> ref \<Rightarrow> message list" where
  "list_get s r = (case heap s r of Some xs \<Rightarrow> xs | None \<Rightarrow> [])"

text \<open>\<open>xs.append(x)\<close> on the list object at \<open>r\<close>.\<close>

definition list_append :: "ref \<Rightarrow> message \<Rightarrow> interp \<Rightarrow> interp" where
  "list_append r x s = s\<lparr>heap := (heap s)(r \<mapsto> list_get s r @ [x])\<rparr>"

text \<open>The four kinds of statement in the rules.\<close>

definition errors_append :: "error \<Rightarrow> config \<Rightarrow> config" where
  "errors_append e c = (fst c, list_append (errors_ref (fst c)) (Err e) (snd c))"

definition warnings_append :: "warning \<Rightarrow> config \<Rightarrow> config" where
  "warnings_append w c = (fst c, list_append (warnings_ref (fst c)) (Warn w) (snd c))"

definition score_add :: "int \<Rightarrow> config \<Rightarrow> config" where
  "score_add k c = ((fst c)\<lparr>score_var := score_var (fst c) + k\<rparr>, snd c)"

definition score_deduct :: "int \<Rightarrow> config \<Rightarrow> config" where
  "score_deduct k c = ((fst c)\<lparr>score_var := max 0 (score_var (fst c) - k)\<rparr>, snd c)"

definition rule1_min_length_h :: "str \<Rightarrow> config \<Rightarrow> config" where
  "rule1_min_length_h password c =
     (if length password < 12 then errors_append TooShort c
      else if 16 \<le> length password then score_add 20 c
      else score_add 10 c)"

definition rule2_max_length_h :: "str \<Rightarrow> config \<Rightarrow> config" where
  "rule2_max_length_h password c =
     (if 128 < length password then errors_append TooLong c else c)"

definition rule3_uppercase_h :: "str \<Rightarrow> config \<Rightarrow> config" where
  "rule3_uppercase_h password c =
     (if \<not> has_upper password then errors_append NoUpper c else score_add 10 c)"

definition rule4_lowercase_h :: "str \<Rightarrow> config \<Rightarrow> config" where
  "rule4_lowercase_h password c =
     (if \<not> has_lower password then errors_append NoLower c else score_add 10 c)"

definition rule5_digit_h :: "unicode \<Rightarrow> str \<Rightarrow> config \<Rightarrow> config" where
  "rule5_digit_h U password c =
     (if \<not> has_digit U password then errors_append NoDigit c else score_add 10 c)"

definition rule6_special_h :: "str \<Rightarrow> config \<Rightarrow> config" where
  "rule6_special_h password c =
     (if \<not> has_special password then errors_append NoSpecial c else score_add 15 c)"

definition rule7_multiple_special_h :: "str \<Rightarrow> config \<Rightarrow> config" where
  "rule7_multiple_special_h password c =
     (if 2 \<le> length (findall_special password) then score_add 5 c else c)"

text \<open>Rules 8 and 11 read a global of the module.\<close>

definition rule8_blacklist_h :: "unicode \<Rightarrow> str \<Rightarrow> config \<Rightarrow> config" where
  "rule8_blacklist_h U password c =
     (if str_lower U password \<in> COMMON_PASSWORDS (globals (snd c))
      then errors_append TooCommon c else c)"

definition rule9_repeat_h :: "str \<Rightarrow> config \<Rightarrow> config" where
  "rule9_repeat_h password c =
     (if has_repeat password then errors_append Repeated c else score_add 5 c)"

definition rule10_sequential_h :: "unicode \<Rightarrow> str \<Rightarrow> config \<Rightarrow> config" where
  "rule10_sequential_h U password c =
     (if has_sequential (str_lower U password) 1 \<or> has_sequential password (- 1)
      then score_deduct 5 (warnings_append Sequential c)
      else c)"

fun walk_loop_h :: "str \<Rightarrow> str list \<Rightarrow> config \<Rightarrow> config" where
  "walk_loop_h p_lower [] c = c"
| "walk_loop_h p_lower (walk # walks) c =
     (if str_in walk p_lower \<or> str_in (rev walk) p_lower
      then score_deduct 10 (warnings_append KeyboardWalk c)
      else walk_loop_h p_lower walks c)"

definition rule11_keyboard_walk_h :: "unicode \<Rightarrow> str \<Rightarrow> config \<Rightarrow> config" where
  "rule11_keyboard_walk_h U password c =
     (let p_lower = str_lower U password
      in walk_loop_h p_lower (KEYBOARD_WALKS (globals (snd c))) c)"

definition rule12_edge_digit_h :: "unicode \<Rightarrow> str \<Rightarrow> config \<Rightarrow> exn + config" where
  "rule12_edge_digit_h U password c =
     (if password = [] then Inl IndexError
      else if str_isdigit U (hd password) \<or> str_isdigit U (last password)
      then Inr (warnings_append EdgeDigit c)
      else Inr c)"

definition rule13_whitespace_h :: "unicode \<Rightarrow> str \<Rightarrow> config \<Rightarrow> config" where
  "rule13_whitespace_h U password c =
     (if has_space U password then errors_append HasWhitespace c else c)"

definition rule14_classes_h :: "unicode \<Rightarrow> str \<Rightarrow> config \<Rightarrow> config" where
  "rule14_classes_h U password c =
     (if classes U password = 1 then errors_append FewClasses c else c)"

definition rule15_entropy_h :: "unicode \<Rightarrow> str \<Rightarrow> config \<Rightarrow> config" where
  "rule15_entropy_h U password c =
     (let entropy = calculate_entropy U password
      in if entropy < 50 then errors_append (LowEntropy entropy) c
         else if 80 \<le> entropy then score_add 25 c
         else if 60 \<le> entropy then score_add 15 c
         else score_add 5 c)"

text \<open>
  The returned dictionary: four immediate values and, under \<open>errors\<close> and
  \<open>warnings\<close>, whatever the type parameter says: references in the object the call
  returns, the lists themselves once it is read in a given state.
\<close>

record 'a verdict_dict =
  valid_d :: bool
  score_d :: int
  strength_d :: strength
  entropy_d :: real
  errors_d :: 'a
  warnings_d :: 'a

definition compose_verdict_h :: "unicode \<Rightarrow> str \<Rightarrow> config \<Rightarrow> ref verdict_dict" where
  "compose_verdict_h U password c =
     (let s = clamp_score (score_var (fst c));
          errs = list_get (snd c) (errors_ref (fst c))
      in \<lparr> valid_d = (length errs = 0),
           score_d = s,
           strength_d =
             (if errs \<noteq> [] then Weak
              else if 85 \<le> s then VeryStrong
              else if 65 \<le> s then Strong
              else if 45 \<le> s then Moderate
              else Weak),
           entropy_d = round2 (calculate_entropy U password),
           errors_d = errors_ref (fst c),
           warnings_d = warnings_ref (fst c) \<rparr>)"

definition rules_1_to_11_h :: "unicode \<Rightarrow> str \<Rightarrow> config \<Rightarrow> config" where
  "rules_1_to_11_h U password c =
     (rule11_keyboard_walk_h U password
      (rule10_sequential_h U password
      (rule9_repeat_h password
      (rule8_blacklist_h U password
      (rule7_multiple_special_h password
      (rule6_special_h password
      (rule5_digit_h U password
      (rule4_lowercase_h password
      (rule3_uppercase_h password
      (rule2_max_length_h password
      (rule1_min_length_h password c)))))))))))"

definition rules_13_to_15_h :: "unicode \<Rightarrow> str \<Rightarrow> config \<Rightarrow> config" where
  "rules_13_to_15_h U password c =
     rule15_entropy_h U password (rule14_classes_h U password (rule13_whitespace_h U password c))"

text \<open>
  One invocation: the two lists are allocated, the rules run, and the call returns the
  dictionary, or the exception, together with the state it leaves.
\<close>

definition validate_password_h ::
    "unicode \<Rightarrow> str \<Rightarrow> interp \<Rightarrow> (exn + ref verdict_dict) \<times> interp" where
  "validate_password_h U password s =
     (let (errors, s) = new_list s;
          (warnings, s) = new_list s;
          c = rules_1_to_11_h U password
                (\<lparr>errors_ref = errors, warnings_ref = warnings, score_var = 0\<rparr>, s)
      in case rule12_edge_digit_h U password c of
           Inl e \<Rightarrow> (Inl e, snd c)
         | Inr c \<Rightarrow>
             (let c = rules_13_to_15_h U password c
              in (Inr (compose_verdict_h U password c), snd c)))"

text \<open>What a caller holding the result reads in the state \<open>s\<close>.\<close>

definition read_result ::
    "interp \<Rightarrow> exn + ref verdict_dict \<Rightarrow> exn + message list verdict_dict" where
  "read_result s r =
     (case r of
        Inl e \<Rightarrow> Inl e
      | Inr d \<Rightarrow> Inr \<lparr> valid_d = valid_d d, score_d = score_d d, strength_d = strength_d d,
                       entropy_d = entropy_d d,
                       errors_d = list_get s (errors_d d),
                       warnings_d = list_get s (warnings_d d) \<rparr>)"

text \<open>The verdict of the functional reading, as such a dictionary.\<close>

definition dict_of :: "exn + verdict \<Rightarrow> exn + message list verdict_dict" where
  "dict_of r =
     (case r of
        Inl e \<Rightarrow> Inl e
      | Inr v \<Rightarrow> Inr \<lparr> valid_d = valid v, score_d = score v, strength_d = strength v,
                       entropy_d = entropy v,
                       errors_d = map Err (errors v),
                       warnings_d = map Warn (warnings v) \<rparr>)"

text \<open>What one call does to the state.\<close>

definition call_frame :: "interp \<Rightarrow> interp \<Rightarrow> bool" where
  "call_frame s s' \<longleftrightarrow>
     globals s' = globals s \<and> next_ref s' = next_ref s + 2
     \<and> (\<forall>a. a \<noteq> next_ref s \<and> a \<noteq> next_ref s + 1 \<longrightarrow> heap s' a = heap s a)"

text \<open>
  A configuration \<open>c\<close> reached in a call that started in \<open>s0\<close>, and the locals
  \<open>l\<close> of the functional reading at the same point.
\<close>

definition corresponds :: "interp \<Rightarrow> config \<Rightarrow> locals \<Rightarrow> bool" where
  "corresponds s0 c l \<longleftrightarrow>
     errors_ref (fst c) = next_ref s0 \<and> warnings_ref (fst c) = next_ref s0 + 1
     \<and> next_ref (snd c) = next_ref s0 + 2
     \<and> globals (snd c) = globals s0
     \<and> (\<forall>a. a \<noteq> next_ref s0 \<and> a \<noteq> next_ref s0 + 1 \<longrightarrow> heap (snd c) a = heap s0 a)
     \<and> heap (snd c) (next_ref s0) = Some (map Err (errors l))
     \<and> heap (snd c) (next_ref s0 + 1) = Some (map Warn (warnings l))
     \<and> score_var (fst c) = score l"

section \<open>Properties of the string operations and of the rules\<close>

subsection \<open>Substrings and the keyboard-walk loop\<close>

lemma str_in_iff_sublist: "str_in w s \<longleftrightarrow> sublist w s"
proof (induction s)
  case Nil
  show ?case by auto
next
  case (Cons c cs)
  have "prefix w (c # cs) \<longleftrightarrow> take (length w) (c # cs) = w"
    by (metis append_eq_conv_conj prefix_def append_take_drop_id)
  then show ?case
    using Cons by (cases w) (simp_all add: sublist_Cons_right)
qed

lemma walk_loop_eq:
  "walk_loop pl ws st =
     (if \<exists>w \<in> set ws. str_in w pl \<or> str_in (rev w) pl
      then st\<lparr>warnings := warnings st @ [KeyboardWalk], score := max 0 (score st - 10)\<rparr>
      else st)"
  by (induction ws) auto

lemma rule11_eq:
  "rule11_keyboard_walk U M p st =
     (if \<exists>w \<in> set (KEYBOARD_WALKS M). sublist w (str_lower U p) \<or> sublist (rev w) (str_lower U p)
      then st\<lparr>warnings := warnings st @ [KeyboardWalk], score := max 0 (score st - 10)\<rparr>
      else st)"
  by (simp add: rule11_keyboard_walk_def walk_loop_eq str_in_iff_sublist)

subsection \<open>When a verdict is returned\<close>

lemma validate_password_InrD:
  "validate_password U M p = Inr v \<Longrightarrow>
     p \<noteq> [] \<and> (\<exists>st. rule12_edge_digit U p (rules_1_to_11 U M p) = Inr st
        \<and> v = compose_verdict U p (rules_13_to_15 U p st))"
  by (auto simp: validate_password_def rule12_edge_digit_def split: sum.splits if_splits)


lemma validate_password_empty: "validate_password U M [] = Inl IndexError"
  by (simp add: validate_password_def rule12_edge_digit_def)

lemma compose_verdict_sel:
  "errors (compose_verdict U p st) = errors st"
  "warnings (compose_verdict U p st) = warnings st"
  "score (compose_verdict U p st) = clamp_score (score st)"
  "valid (compose_verdict U p st) = (errors st = [])"
  "strength (compose_verdict U p st) = strength_label (errors st) (clamp_score (score st))"
  "entropy (compose_verdict U p st) = round2 (calculate_entropy U p)"
  by (simp_all add: compose_verdict_def Let_def)


subsection \<open>What each rule does to the errors, the score and the warnings\<close>

lemma rule1_errors: "errors (rule1_min_length p st) = errors st @ (if length p < 12 then [TooShort] else [])"
  by (simp add: rule1_min_length_def)
lemma rule2_errors: "errors (rule2_max_length p st) = errors st @ (if 128 < length p then [TooLong] else [])"
  by (simp add: rule2_max_length_def)
lemma rule3_errors: "errors (rule3_uppercase p st) = errors st @ (if has_upper p then [] else [NoUpper])"
  by (simp add: rule3_uppercase_def)
lemma rule4_errors: "errors (rule4_lowercase p st) = errors st @ (if has_lower p then [] else [NoLower])"
  by (simp add: rule4_lowercase_def)
lemma rule5_errors: "errors (rule5_digit U p st) = errors st @ (if has_digit U p then [] else [NoDigit])"
  by (simp add: rule5_digit_def)
lemma rule6_errors: "errors (rule6_special p st) = errors st @ (if has_special p then [] else [NoSpecial])"
  by (simp add: rule6_special_def)
lemma rule7_errors: "errors (rule7_multiple_special p st) = errors st"
  by (simp add: rule7_multiple_special_def)
lemma rule8_errors: "errors (rule8_blacklist U M p st) = errors st @ (if str_lower U p \<in> COMMON_PASSWORDS M then [TooCommon] else [])"
  by (simp add: rule8_blacklist_def)
lemma rule9_errors: "errors (rule9_repeat p st) = errors st @ (if has_repeat p then [Repeated] else [])"
  by (simp add: rule9_repeat_def)
lemma rule10_errors: "errors (rule10_sequential U p st) = errors st"
  by (simp add: rule10_sequential_def)
lemma rule11_errors: "errors (rule11_keyboard_walk U M p st) = errors st"
  by (simp add: rule11_eq)
lemma rule12_errors: "rule12_edge_digit U p st = Inr st' \<Longrightarrow> errors st' = errors st"
  by (auto simp: rule12_edge_digit_def split: if_splits)
lemma rule13_errors: "errors (rule13_whitespace U p st) = errors st @ (if has_space U p then [HasWhitespace] else [])"
  by (simp add: rule13_whitespace_def)
lemma rule14_errors: "errors (rule14_classes U p st) = errors st @ (if classes U p = 1 then [FewClasses] else [])"
  by (simp add: rule14_classes_def)
lemma rule15_errors: "errors (rule15_entropy U p st) =
    errors st @ (if calculate_entropy U p < 50 then [LowEntropy (calculate_entropy U p)] else [])"
  by (simp add: rule15_entropy_def Let_def)

lemmas rule_errors = rule1_errors rule2_errors rule3_errors rule4_errors rule5_errors
  rule6_errors rule7_errors rule8_errors rule9_errors rule10_errors rule11_errors
  rule13_errors rule14_errors rule15_errors

lemma rule1_score: "score (rule1_min_length p st) = score st + (if length p < 12 then 0 else if 16 \<le> length p then 20 else 10)"
  by (simp add: rule1_min_length_def)
lemma rule2_score: "score (rule2_max_length p st) = score st"
  by (simp add: rule2_max_length_def)
lemma rule3_score: "score (rule3_uppercase p st) = score st + (if has_upper p then 10 else 0)"
  by (simp add: rule3_uppercase_def)
lemma rule4_score: "score (rule4_lowercase p st) = score st + (if has_lower p then 10 else 0)"
  by (simp add: rule4_lowercase_def)
lemma rule5_score: "score (rule5_digit U p st) = score st + (if has_digit U p then 10 else 0)"
  by (simp add: rule5_digit_def)
lemma rule6_score: "score (rule6_special p st) = score st + (if has_special p then 15 else 0)"
  by (simp add: rule6_special_def)
lemma rule7_score: "score (rule7_multiple_special p st) = score st + (if 2 \<le> length (findall_special p) then 5 else 0)"
  by (simp add: rule7_multiple_special_def)
lemma rule8_score: "score (rule8_blacklist U M p st) = score st"
  by (simp add: rule8_blacklist_def)
lemma rule9_score: "score (rule9_repeat p st) = score st + (if has_repeat p then 0 else 5)"
  by (simp add: rule9_repeat_def)
lemma rule10_score: "score (rule10_sequential U p st) =
    (if has_sequential (str_lower U p) 1 \<or> has_sequential p (- 1) then max 0 (score st - 5) else score st)"
  by (simp add: rule10_sequential_def)
lemma rule11_score: "score (rule11_keyboard_walk U M p st) =
    (if \<exists>w \<in> set (KEYBOARD_WALKS M). sublist w (str_lower U p) \<or> sublist (rev w) (str_lower U p)
     then max 0 (score st - 10) else score st)"
  by (simp add: rule11_eq)
lemma rule12_score: "rule12_edge_digit U p st = Inr st' \<Longrightarrow> score st' = score st"
  by (auto simp: rule12_edge_digit_def split: if_splits)
lemma rule13_score: "score (rule13_whitespace U p st) = score st"
  by (simp add: rule13_whitespace_def)
lemma rule14_score: "score (rule14_classes U p st) = score st"
  by (simp add: rule14_classes_def)
lemma rule15_score: "score (rule15_entropy U p st) = score st +
    (if calculate_entropy U p < 50 then 0 else if 80 \<le> calculate_entropy U p then 25
     else if 60 \<le> calculate_entropy U p then 15 else 5)"
  by (simp add: rule15_entropy_def Let_def)

lemma rule1_warnings: "warnings (rule1_min_length p st) = warnings st"
  by (simp add: rule1_min_length_def)
lemma rule2_warnings: "warnings (rule2_max_length p st) = warnings st"
  by (simp add: rule2_max_length_def)
lemma rule3_warnings: "warnings (rule3_uppercase p st) = warnings st"
  by (simp add: rule3_uppercase_def)
lemma rule4_warnings: "warnings (rule4_lowercase p st) = warnings st"
  by (simp add: rule4_lowercase_def)
lemma rule5_warnings: "warnings (rule5_digit U p st) = warnings st"
  by (simp add: rule5_digit_def)
lemma rule6_warnings: "warnings (rule6_special p st) = warnings st"
  by (simp add: rule6_special_def)
lemma rule7_warnings: "warnings (rule7_multiple_special p st) = warnings st"
  by (simp add: rule7_multiple_special_def)
lemma rule8_warnings: "warnings (rule8_blacklist U M p st) = warnings st"
  by (simp add: rule8_blacklist_def)
lemma rule9_warnings: "warnings (rule9_repeat p st) = warnings st"
  by (simp add: rule9_repeat_def)
lemma rule10_warnings: "warnings (rule10_sequential U p st) = warnings st @
    (if has_sequential (str_lower U p) 1 \<or> has_sequential p (- 1) then [Sequential] else [])"
  by (simp add: rule10_sequential_def)
lemma rule11_warnings: "warnings (rule11_keyboard_walk U M p st) = warnings st @
    (if \<exists>w \<in> set (KEYBOARD_WALKS M). sublist w (str_lower U p) \<or> sublist (rev w) (str_lower U p)
     then [KeyboardWalk] else [])"
  by (simp add: rule11_eq)
lemma rule12_warnings: "rule12_edge_digit U p st = Inr st' \<Longrightarrow>
    warnings st' = warnings st @ (if str_isdigit U (hd p) \<or> str_isdigit U (last p) then [EdgeDigit] else [])"
  by (auto simp: rule12_edge_digit_def split: if_splits)
lemma rule13_warnings: "warnings (rule13_whitespace U p st) = warnings st"
  by (simp add: rule13_whitespace_def)
lemma rule14_warnings: "warnings (rule14_classes U p st) = warnings st"
  by (simp add: rule14_classes_def)
lemma rule15_warnings: "warnings (rule15_entropy U p st) = warnings st"
  by (simp add: rule15_entropy_def Let_def)

lemmas rule_warnings = rule1_warnings rule2_warnings rule3_warnings rule4_warnings
  rule5_warnings rule6_warnings rule7_warnings rule8_warnings rule9_warnings
  rule10_warnings rule11_warnings rule13_warnings rule14_warnings rule15_warnings

lemmas rule_score = rule1_score rule2_score rule3_score rule4_score rule5_score
  rule6_score rule7_score rule8_score rule9_score rule10_score rule11_score
  rule13_score rule14_score rule15_score

subsection \<open>A verdict without errors\<close>

lemma no_errors_score_before:
  assumes "errors (rules_1_to_11 U M p) = []"
  shows "45 \<le> score (rules_1_to_11 U M p)"
proof -
  from assms have c: "12 \<le> length p" "has_upper p" "has_lower p" "has_digit U p"
      "has_special p" "\<not> has_repeat p"
    by (simp_all add: rules_1_to_11_def rule_errors split: if_splits)
  then show ?thesis
    by (simp add: rules_1_to_11_def rule_score)
qed

lemma valid_verdict_score:
  assumes "validate_password U M p = Inr v" and "valid v"
  shows "50 \<le> score v \<and> strength v \<noteq> Weak"
proof -
  from assms(1) obtain st where st: "rule12_edge_digit U p (rules_1_to_11 U M p) = Inr st"
    and v: "v = compose_verdict U p (rules_13_to_15 U p st)"
    using validate_password_InrD by blast
  from assms(2) v have e: "errors (rules_13_to_15 U p st) = []"
    by (simp add: compose_verdict_sel)
  then have e12: "errors st = []" and ent: "\<not> calculate_entropy U p < 50"
    by (simp_all add: rules_13_to_15_def rule_errors split: if_splits)
  from e12 rule12_errors [OF st] have "errors (rules_1_to_11 U M p) = []" by simp
  then have "45 \<le> score (rules_1_to_11 U M p)" by (rule no_errors_score_before)
  with rule12_score [OF st] have "45 \<le> score st" by simp
  with ent have s: "50 \<le> score (rules_13_to_15 U p st)"
    by (simp add: rules_13_to_15_def rule_score)
  then have "50 \<le> score v"
    by (simp add: v compose_verdict_sel clamp_score_def)
  moreover from this e have "strength v \<noteq> Weak"
    by (simp add: v compose_verdict_sel strength_label_def)
  ultimately show ?thesis by simp
qed

subsection \<open>The class-diversity error\<close>



subsection \<open>The keyboard-walk warning in the verdict\<close>

lemma walk_warning_count:
  assumes "validate_password U M p = Inr v"
  shows "count_list (warnings v) KeyboardWalk =
     (if \<exists>w \<in> set (KEYBOARD_WALKS M). sublist w (str_lower U p) \<or> sublist (rev w) (str_lower U p)
      then 1 else 0)"
proof -
  from assms obtain st where st: "rule12_edge_digit U p (rules_1_to_11 U M p) = Inr st"
    and v: "v = compose_verdict U p (rules_13_to_15 U p st)"
    using validate_password_InrD by blast
  show ?thesis
    by (simp add: v compose_verdict_sel rules_13_to_15_def rule_warnings rule12_warnings [OF st]
        rules_1_to_11_def)
qed

subsection \<open>The charset size and the entropy\<close>






subsection \<open>Entropy thresholds as integer comparisons\<close>

lemma entropy_less_iff:
  "calculate_entropy U p < real k \<longleftrightarrow>
     (if charset_size U p = 0 then 0 < k else charset_size U p ^ length p < 2 ^ k)"
proof (cases "charset_size U p = 0")
  case True
  then show ?thesis by (simp add: calculate_entropy_def)
next
  case False
  then have c: "0 < real (charset_size U p)" by simp
  have "real (length p) * log 2 (real (charset_size U p))
        = log 2 (real (charset_size U p) ^ length p)"
    using c by (simp add: log_nat_power)
  moreover have "real k = log 2 (2 ^ k)" by simp
  ultimately have "calculate_entropy U p < real k
      \<longleftrightarrow> log 2 (real (charset_size U p) ^ length p) < log 2 (2 ^ k)"
    using False by (simp add: calculate_entropy_def Let_def)
  also have "\<dots> \<longleftrightarrow> real (charset_size U p) ^ length p < 2 ^ k"
    using c by (subst log_less_cancel_iff) simp_all
  also have "\<dots> \<longleftrightarrow> charset_size U p ^ length p < 2 ^ k"
    by (metis of_nat_less_iff of_nat_power of_nat_numeral)
  finally show ?thesis using False by simp
qed

lemma entropy_less_50:
  "calculate_entropy U p < 50 \<longleftrightarrow> charset_size U p = 0 \<or> charset_size U p ^ length p < 2 ^ 50"
  using entropy_less_iff [of U p 50] by (simp split: if_splits)

lemma entropy_ge_60:
  "60 \<le> calculate_entropy U p \<longleftrightarrow> charset_size U p \<noteq> 0 \<and> 2 ^ 60 \<le> charset_size U p ^ length p"
  using entropy_less_iff [of U p 60] by (simp add: not_less [symmetric] split: if_splits)

lemma entropy_ge_80:
  "80 \<le> calculate_entropy U p \<longleftrightarrow> charset_size U p \<noteq> 0 \<and> 2 ^ 80 \<le> charset_size U p ^ length p"
  using entropy_less_iff [of U p 80] by (simp add: not_less [symmetric] split: if_splits)

lemmas entropy_cmp = entropy_less_50 entropy_ge_60 entropy_ge_80

lemmas class_defs = has_lower_def has_upper_def has_digit_def has_special_def has_space_def
  is_special_def special_chars_def findall_special_def classes_def charset_size_def

lemmas rule_defs = rule1_min_length_def rule2_max_length_def rule3_uppercase_def
  rule4_lowercase_def rule5_digit_def rule6_special_def rule7_multiple_special_def
  rule8_blacklist_def rule9_repeat_def rule10_sequential_def rule11_keyboard_walk_def
  rule12_edge_digit_def rule13_whitespace_def rule14_classes_def rule15_entropy_def

lemmas table_defs = latin1_def app_module_def lit_def lower_cp_def

subsection \<open>Sample runs\<close>


lemma run_Tr0ub4dor:
  "validate_password latin1 app_module (lit ''Tr0ub4dor&3XyZ'') = Inr
     \<lparr>errors = [], warnings = [Sequential], score = 80, valid = True, strength = Strong,
      entropy = round2 (calculate_entropy latin1 (lit ''Tr0ub4dor&3XyZ''))\<rparr>"
proof -
  have cs: "charset_size latin1 (lit ''Tr0ub4dor&3XyZ'') = 94"
    by (simp add: class_defs table_defs)
  have e: "\<not> calculate_entropy latin1 (lit ''Tr0ub4dor&3XyZ'') < 50"
      "80 \<le> calculate_entropy latin1 (lit ''Tr0ub4dor&3XyZ'')"
    by (simp_all add: entropy_cmp cs) (simp_all add: lit_def)
  have b: "rules_1_to_11 latin1 app_module (lit ''Tr0ub4dor&3XyZ'') =
     \<lparr>errors = [], warnings = [Sequential], score = 55\<rparr>"
    by (simp add: rules_1_to_11_def rule_defs class_defs table_defs)
  have c: "classes latin1 (lit ''Tr0ub4dor&3XyZ'') = 4"
    by (simp add: class_defs table_defs)
  have s: "\<not> has_space latin1 (lit ''Tr0ub4dor&3XyZ'')"
    by (simp add: class_defs table_defs)
  show ?thesis
    by (simp add: validate_password_def b rule12_edge_digit_def rules_13_to_15_def
        rule13_whitespace_def rule14_classes_def rule15_entropy_def c s e compose_verdict_def
        clamp_score_def strength_label_def Let_def)
       (simp add: table_defs)
qed

lemma run_Qwertyu:
  "validate_password latin1 app_module (lit ''Qwertyu#7Zxcvbn'') = Inr
     \<lparr>errors = [], warnings = [KeyboardWalk], score = 75, valid = True, strength = Strong,
      entropy = round2 (calculate_entropy latin1 (lit ''Qwertyu#7Zxcvbn''))\<rparr>"
proof -
  have cs: "charset_size latin1 (lit ''Qwertyu#7Zxcvbn'') = 94"
    by (simp add: class_defs table_defs)
  have e: "\<not> calculate_entropy latin1 (lit ''Qwertyu#7Zxcvbn'') < 50"
      "80 \<le> calculate_entropy latin1 (lit ''Qwertyu#7Zxcvbn'')"
    by (simp_all add: entropy_cmp cs) (simp_all add: lit_def)
  have b: "rules_1_to_11 latin1 app_module (lit ''Qwertyu#7Zxcvbn'') =
     \<lparr>errors = [], warnings = [KeyboardWalk], score = 50\<rparr>"
    by (simp add: rules_1_to_11_def rule_defs class_defs table_defs)
  have c: "classes latin1 (lit ''Qwertyu#7Zxcvbn'') = 4"
    by (simp add: class_defs table_defs)
  have s: "\<not> has_space latin1 (lit ''Qwertyu#7Zxcvbn'')"
    by (simp add: class_defs table_defs)
  show ?thesis
    by (simp add: validate_password_def b rule12_edge_digit_def rules_13_to_15_def
        rule13_whitespace_def rule14_classes_def rule15_entropy_def c s e compose_verdict_def
        clamp_score_def strength_label_def Let_def)
       (simp add: table_defs)
qed

lemma run_hello:
  "validate_password latin1 app_module (lit ''hello'') = Inr
     \<lparr>errors = [TooShort, NoUpper, NoDigit, NoSpecial, TooCommon, FewClasses,
                LowEntropy (calculate_entropy latin1 (lit ''hello''))],
      warnings = [], score = 15, valid = False, strength = Weak,
      entropy = round2 (calculate_entropy latin1 (lit ''hello''))\<rparr>"
proof -
  have cs: "charset_size latin1 (lit ''hello'') = 26"
    by (simp add: class_defs table_defs)
  have e: "calculate_entropy latin1 (lit ''hello'') < 50"
    by (simp add: entropy_cmp cs) (simp add: lit_def)
  have b: "rules_1_to_11 latin1 app_module (lit ''hello'') =
     \<lparr>errors = [TooShort, NoUpper, NoDigit, NoSpecial, TooCommon], warnings = [], score = 15\<rparr>"
    by (simp add: rules_1_to_11_def rule_defs class_defs table_defs)
  have c: "classes latin1 (lit ''hello'') = 1"
    by (simp add: class_defs table_defs)
  have s: "\<not> has_space latin1 (lit ''hello'')"
    by (simp add: class_defs table_defs)
  show ?thesis
    by (simp add: validate_password_def b rule12_edge_digit_def rules_13_to_15_def
        rule13_whitespace_def rule14_classes_def rule15_entropy_def c s e compose_verdict_def
        clamp_score_def strength_label_def Let_def)
       (simp add: table_defs)
qed

lemma walks_Qwertyu:
  "filter (\<lambda>w. str_in w (str_lower latin1 (lit ''Qwertyu#7Zxcvbn'')))
     (KEYBOARD_WALKS app_module) = map lit [''qwerty'', ''zxcvbn'', ''qwertyu'']"
  by (simp add: table_defs)

lemma hit_Qwertyu:
  "\<exists>w \<in> set (KEYBOARD_WALKS app_module).
      sublist w (str_lower latin1 (lit ''Qwertyu#7Zxcvbn''))
      \<or> sublist (rev w) (str_lower latin1 (lit ''Qwertyu#7Zxcvbn''))"
  by (simp add: str_in_iff_sublist [symmetric]) (simp add: table_defs)


subsection \<open>The call on the heap and the functional reading\<close>

lemma corr_errors_append:
  "corresponds s0 c l \<Longrightarrow> corresponds s0 (errors_append e c) (l\<lparr>errors := errors l @ [e]\<rparr>)"
  by (simp add: corresponds_def errors_append_def list_append_def list_get_def)

lemma corr_warnings_append:
  "corresponds s0 c l \<Longrightarrow> corresponds s0 (warnings_append w c) (l\<lparr>warnings := warnings l @ [w]\<rparr>)"
  by (simp add: corresponds_def warnings_append_def list_append_def list_get_def)

lemma corr_score_add:
  "corresponds s0 c l \<Longrightarrow> corresponds s0 (score_add k c) (l\<lparr>score := score l + k\<rparr>)"
  by (simp add: corresponds_def score_add_def)

lemma corr_score_deduct:
  "corresponds s0 c l \<Longrightarrow> corresponds s0 (score_deduct k c) (l\<lparr>score := max 0 (score l - k)\<rparr>)"
  by (simp add: corresponds_def score_deduct_def)

lemma corr_warn_deduct:
  assumes "corresponds s0 c l"
  shows "corresponds s0 (score_deduct k (warnings_append w c))
     (l\<lparr>warnings := warnings l @ [w], score := max 0 (score l - k)\<rparr>)"
  using corr_score_deduct [OF corr_warnings_append [OF assms], of k w] by simp

lemmas corr_stmt = corr_errors_append corr_warnings_append corr_score_add corr_warn_deduct

lemma corr_globals: "corresponds s0 c l \<Longrightarrow> globals (snd c) = globals s0"
  by (simp add: corresponds_def)

lemma corr_walk_loop:
  "corresponds s0 c l \<Longrightarrow> corresponds s0 (walk_loop_h pl ws c) (walk_loop pl ws l)"
proof (induction ws)
  case Nil
  then show ?case by simp
next
  case (Cons w ws)
  then show ?case
    by (simp add: corr_warn_deduct)
qed

lemma corr_rule1:
  "corresponds s0 c l \<Longrightarrow> corresponds s0 (rule1_min_length_h p c) (rule1_min_length p l)"
  by (auto simp: rule1_min_length_h_def rule1_min_length_def Let_def intro!: corr_stmt)

lemma corr_rule2:
  "corresponds s0 c l \<Longrightarrow> corresponds s0 (rule2_max_length_h p c) (rule2_max_length p l)"
  by (auto simp: rule2_max_length_h_def rule2_max_length_def Let_def intro!: corr_stmt)

lemma corr_rule3:
  "corresponds s0 c l \<Longrightarrow> corresponds s0 (rule3_uppercase_h p c) (rule3_uppercase p l)"
  by (auto simp: rule3_uppercase_h_def rule3_uppercase_def Let_def intro!: corr_stmt)

lemma corr_rule4:
  "corresponds s0 c l \<Longrightarrow> corresponds s0 (rule4_lowercase_h p c) (rule4_lowercase p l)"
  by (auto simp: rule4_lowercase_h_def rule4_lowercase_def Let_def intro!: corr_stmt)

lemma corr_rule5:
  "corresponds s0 c l \<Longrightarrow> corresponds s0 (rule5_digit_h U p c) (rule5_digit U p l)"
  by (auto simp: rule5_digit_h_def rule5_digit_def Let_def intro!: corr_stmt)

lemma corr_rule6:
  "corresponds s0 c l \<Longrightarrow> corresponds s0 (rule6_special_h p c) (rule6_special p l)"
  by (auto simp: rule6_special_h_def rule6_special_def Let_def intro!: corr_stmt)

lemma corr_rule7:
  "corresponds s0 c l \<Longrightarrow> corresponds s0 (rule7_multiple_special_h p c) (rule7_multiple_special p l)"
  by (auto simp: rule7_multiple_special_h_def rule7_multiple_special_def Let_def intro!: corr_stmt)

lemma corr_rule9:
  "corresponds s0 c l \<Longrightarrow> corresponds s0 (rule9_repeat_h p c) (rule9_repeat p l)"
  by (auto simp: rule9_repeat_h_def rule9_repeat_def Let_def intro!: corr_stmt)

lemma corr_rule10:
  "corresponds s0 c l \<Longrightarrow> corresponds s0 (rule10_sequential_h U p c) (rule10_sequential U p l)"
  by (auto simp: rule10_sequential_h_def rule10_sequential_def Let_def intro!: corr_stmt)

lemma corr_rule13:
  "corresponds s0 c l \<Longrightarrow> corresponds s0 (rule13_whitespace_h U p c) (rule13_whitespace U p l)"
  by (auto simp: rule13_whitespace_h_def rule13_whitespace_def Let_def intro!: corr_stmt)

lemma corr_rule14:
  "corresponds s0 c l \<Longrightarrow> corresponds s0 (rule14_classes_h U p c) (rule14_classes U p l)"
  by (auto simp: rule14_classes_h_def rule14_classes_def Let_def intro!: corr_stmt)

lemma corr_rule15:
  "corresponds s0 c l \<Longrightarrow> corresponds s0 (rule15_entropy_h U p c) (rule15_entropy U p l)"
  by (auto simp: rule15_entropy_h_def rule15_entropy_def Let_def intro!: corr_stmt)

lemma corr_rule8:
  "corresponds s0 c l \<Longrightarrow>
   corresponds s0 (rule8_blacklist_h U p c) (rule8_blacklist U (globals s0) p l)"
  by (auto simp: rule8_blacklist_h_def rule8_blacklist_def corr_globals intro!: corr_stmt)

lemma corr_rule11:
  "corresponds s0 c l \<Longrightarrow>
   corresponds s0 (rule11_keyboard_walk_h U p c) (rule11_keyboard_walk U (globals s0) p l)"
  by (simp add: rule11_keyboard_walk_h_def rule11_keyboard_walk_def corr_globals corr_walk_loop)

lemma corr_rule12:
  "corresponds s0 c l \<Longrightarrow>
   (case rule12_edge_digit_h U p c of
      Inl e \<Rightarrow> rule12_edge_digit U p l = Inl e
    | Inr c' \<Rightarrow> (\<exists>l'. rule12_edge_digit U p l = Inr l' \<and> corresponds s0 c' l'))"
  by (auto simp: rule12_edge_digit_h_def rule12_edge_digit_def intro!: corr_stmt)

lemmas corr_rule = corr_rule1 corr_rule2 corr_rule3 corr_rule4 corr_rule5 corr_rule6
  corr_rule7 corr_rule8 corr_rule9 corr_rule10 corr_rule11 corr_rule13 corr_rule14 corr_rule15

lemma corr_rules_1_to_11:
  "corresponds s0 c \<lparr>errors = [], warnings = [], score = 0\<rparr> \<Longrightarrow>
   corresponds s0 (rules_1_to_11_h U p c) (rules_1_to_11 U (globals s0) p)"
  unfolding rules_1_to_11_h_def rules_1_to_11_def by (intro corr_rule)

lemma corr_rules_13_to_15:
  "corresponds s0 c l \<Longrightarrow> corresponds s0 (rules_13_to_15_h U p c) (rules_13_to_15 U p l)"
  unfolding rules_13_to_15_h_def rules_13_to_15_def by (intro corr_rule)

lemma corr_initial:
  "corresponds s0
     (\<lparr>errors_ref = next_ref s0, warnings_ref = next_ref s0 + 1, score_var = 0\<rparr>,
      s0\<lparr>heap := (heap s0)(next_ref s0 \<mapsto> [], next_ref s0 + 1 \<mapsto> []),
         next_ref := next_ref s0 + 2\<rparr>)
     \<lparr>errors = [], warnings = [], score = 0\<rparr>"
  by (simp add: corresponds_def)

lemma corr_compose:
  "corresponds s0 c l \<Longrightarrow>
   read_result (snd c) (Inr (compose_verdict_h U p c)) = dict_of (Inr (compose_verdict U p l))"
  by (simp add: corresponds_def read_result_def dict_of_def compose_verdict_h_def
      compose_verdict_def strength_label_def list_get_def Let_def)

lemma corr_call_frame: "corresponds s0 c l \<Longrightarrow> call_frame s0 (snd c)"
  by (simp add: corresponds_def call_frame_def)

lemma validate_password_h_refines:
  assumes "validate_password_h U p s = (r, s')"
  shows "read_result s' r = dict_of (validate_password U (globals s) p)"
    and "call_frame s s'"
    and "\<forall>d. r = Inr d \<longrightarrow> errors_d d = next_ref s \<and> warnings_d d = next_ref s + 1"
proof -
  let ?c0 = "(\<lparr>errors_ref = next_ref s, warnings_ref = next_ref s + 1, score_var = 0\<rparr>,
      s\<lparr>heap := (heap s)(next_ref s \<mapsto> [], next_ref s + 1 \<mapsto> []),
         next_ref := next_ref s + 2\<rparr>)"
  let ?c = "rules_1_to_11_h U p ?c0"
  have c: "corresponds s ?c (rules_1_to_11 U (globals s) p)"
    using corr_initial by (rule corr_rules_1_to_11)
  have run: "validate_password_h U p s =
     (case rule12_edge_digit_h U p ?c of
           Inl e \<Rightarrow> (Inl e, snd ?c)
         | Inr c \<Rightarrow> (Inr (compose_verdict_h U p (rules_13_to_15_h U p c)),
                     snd (rules_13_to_15_h U p c)))"
    by (simp add: validate_password_h_def new_list_def Let_def split: sum.split)
  have "read_result s' r = dict_of (validate_password U (globals s) p) \<and> call_frame s s'
      \<and> (\<forall>d. r = Inr d \<longrightarrow> errors_d d = next_ref s \<and> warnings_d d = next_ref s + 1)"
  proof (cases "rule12_edge_digit_h U p ?c")
    case (Inl e)
    with corr_rule12 [OF c, of U p]
    have "rule12_edge_digit U p (rules_1_to_11 U (globals s) p) = Inl e"
      by simp
    moreover from Inl run assms have r: "r = Inl e" "s' = snd ?c" by simp_all
    ultimately have "read_result s' r = dict_of (validate_password U (globals s) p)"
      by (simp add: read_result_def dict_of_def validate_password_def)
    moreover from r corr_call_frame [OF c] have "call_frame s s'" by simp
    ultimately show ?thesis using r by simp
  next
    case (Inr c')
    with corr_rule12 [OF c, of U p] obtain l' where
      l': "rule12_edge_digit U p (rules_1_to_11 U (globals s) p) = Inr l'"
      and c': "corresponds s c' l'"
      by auto
    let ?c2 = "rules_13_to_15_h U p c'"
    from c' have c2: "corresponds s ?c2 (rules_13_to_15 U p l')"
      by (rule corr_rules_13_to_15)
    from Inr run assms have r: "r = Inr (compose_verdict_h U p ?c2)" "s' = snd ?c2"
      by simp_all
    from r corr_compose [OF c2, of U p] l'
    have "read_result s' r = dict_of (validate_password U (globals s) p)"
      by (simp add: validate_password_def)
    moreover from r corr_call_frame [OF c2] have "call_frame s s'" by simp
    moreover from r c2
    have "\<forall>d. r = Inr d \<longrightarrow> errors_d d = next_ref s \<and> warnings_d d = next_ref s + 1"
      by (simp add: compose_verdict_h_def corresponds_def Let_def)
    ultimately show ?thesis by simp
  qed
  then show "read_result s' r = dict_of (validate_password U (globals s) p)"
    and "call_frame s s'"
    and "\<forall>d. r = Inr d \<longrightarrow> errors_d d = next_ref s \<and> warnings_d d = next_ref s + 1"
    by simp_all
qed

lemma read_result_frame:
  assumes "call_frame s1 s2"
    and "\<forall>d. r = Inr d \<longrightarrow> errors_d d < next_ref s1 \<and> warnings_d d < next_ref s1"
  shows "read_result s2 r = read_result s1 r"
proof (cases r)
  case (Inl e)
  then show ?thesis by (simp add: read_result_def)
next
  case (Inr d)
  with assms(2) have "errors_d d < next_ref s1" "warnings_d d < next_ref s1" by simp_all
  with assms(1) have "heap s2 (errors_d d) = heap s1 (errors_d d)"
      "heap s2 (warnings_d d) = heap s1 (warnings_d d)"
    by (simp_all add: call_frame_def)
  with Inr show ?thesis by (simp add: read_result_def list_get_def)
qed

section \<open>The claims\<close>

text \<open>
  C1. The claim: for every input string, the empty one included, \<open>validate_password\<close>
  returns a verdict and raises nothing. On the empty string the edge-digit check
  evaluates \<open>password[0]\<close> and the call ends in \<open>IndexError\<close>, whatever the Unicode
  tables and the module state.
\<close>

theorem empty_password_raises: "validate_password U M [] = Inl IndexError"
  by (rule validate_password_empty)

text \<open>
  C2. The claim: the empty string yields a verdict with \<open>valid = False\<close>, score 0 and
  the minimum-length, uppercase, lowercase, digit, special-character, class-diversity
  and entropy errors, and no whitespace error. The call on the empty string ends in the
  \<open>IndexError\<close> of C1, so it returns no verdict, and none of this shape.
\<close>

theorem empty_password_no_such_verdict:
  "\<not> (\<exists>v. validate_password latin1 app_module [] = Inr v \<and> \<not> valid v \<and> score v = 0
        \<and> set [TooShort, NoUpper, NoLower, NoDigit, NoSpecial, FewClasses] \<subseteq> set (errors v)
        \<and> (\<exists>e. LowEntropy e \<in> set (errors v)) \<and> HasWhitespace \<notin> set (errors v))"
  by (simp add: validate_password_empty)




text \<open>
  C4. For every password, the returned verdict satisfies
  \<open>valid == (the errors list is empty)\<close>.
\<close>

theorem valid_iff_no_errors:
  "validate_password U M p = Inr v \<Longrightarrow> valid v = (errors v = [])"
  by (auto dest!: validate_password_InrD simp: compose_verdict_sel)

theorem valid_iff_no_errors_witness:
  "validate_password latin1 app_module (lit ''Tr0ub4dor&3XyZ'') = Inr
     \<lparr>errors = [], warnings = [Sequential], score = 80, valid = True, strength = Strong,
      entropy = round2 (calculate_entropy latin1 (lit ''Tr0ub4dor&3XyZ''))\<rparr>
   \<and> valid
     \<lparr>errors = [], warnings = [Sequential], score = 80, valid = True, strength = Strong,
      entropy = round2 (calculate_entropy latin1 (lit ''Tr0ub4dor&3XyZ''))\<rparr>
     = (errors
     \<lparr>errors = [], warnings = [Sequential], score = 80, valid = True, strength = Strong,
      entropy = round2 (calculate_entropy latin1 (lit ''Tr0ub4dor&3XyZ''))\<rparr> = [])"
  by (rule conjI [OF run_Tr0ub4dor valid_iff_no_errors [OF run_Tr0ub4dor]])

text \<open>
  C5. For every password the returned score lies in \<open>[0, 100]\<close>; the two deductions
  (sequential run, keyboard walk) floor the running total at 0 where they subtract.
\<close>

theorem score_in_range_and_floors:
  "(validate_password U M p = Inr v \<longrightarrow> 0 \<le> score v \<and> score v \<le> 100)
   \<and> score (rule10_sequential U p st) =
       (if has_sequential (str_lower U p) 1 \<or> has_sequential p (- 1)
        then max 0 (score st - 5) else score st)
   \<and> score (rule11_keyboard_walk U M p st) =
       (if \<exists>w \<in> set (KEYBOARD_WALKS M).
             sublist w (str_lower U p) \<or> sublist (rev w) (str_lower U p)
        then max 0 (score st - 10) else score st)"
proof (intro conjI impI)
  assume "validate_password U M p = Inr v"
  then obtain st' where "v = compose_verdict U p st'"
    using validate_password_InrD by blast
  then show "0 \<le> score v" and "score v \<le> 100"
    by (simp_all add: compose_verdict_sel clamp_score_def)
qed (simp_all add: rule10_score rule11_score)

theorem score_in_range_and_floors_witness:
  "validate_password latin1 app_module (lit ''Qwertyu#7Zxcvbn'') = Inr
     \<lparr>errors = [], warnings = [KeyboardWalk], score = 75, valid = True, strength = Strong,
      entropy = round2 (calculate_entropy latin1 (lit ''Qwertyu#7Zxcvbn''))\<rparr>
   \<and> (0::int) \<le> 75 \<and> (75::int) \<le> 100
   \<and> score (rule11_keyboard_walk latin1 app_module (lit ''Qwertyu#7Zxcvbn'')
        \<lparr>errors = [], warnings = [], score = 3\<rparr>) = 0"
proof -
  note t = score_in_range_and_floors [of latin1 app_module "lit ''Qwertyu#7Zxcvbn''" _
      "\<lparr>errors = [], warnings = [], score = 3\<rparr>"]
  from t [THEN conjunct1, rule_format, OF run_Qwertyu]
  have "(0::int) \<le> 75 \<and> (75::int) \<le> 100" by simp
  moreover from t [THEN conjunct2, THEN conjunct2] hit_Qwertyu
  have "score (rule11_keyboard_walk latin1 app_module (lit ''Qwertyu#7Zxcvbn'')
        \<lparr>errors = [], warnings = [], score = 3\<rparr>) = 0"
    by simp
  ultimately show ?thesis using run_Qwertyu by blast
qed




text \<open>
  C7. For every password the strength label of the returned verdict is Weak when the
  errors list is not empty; otherwise Very Strong from a score of 85, Strong from 65,
  Moderate from 45, and Weak below.
\<close>

theorem strength_by_errors_and_score:
  "validate_password U M p = Inr v \<Longrightarrow>
   strength v =
     (if errors v \<noteq> [] then Weak
      else if 85 \<le> score v then VeryStrong
      else if 65 \<le> score v then Strong
      else if 45 \<le> score v then Moderate
      else Weak)"
  by (auto dest!: validate_password_InrD simp: compose_verdict_sel strength_label_def)

theorem strength_by_errors_and_score_witness:
  "validate_password latin1 app_module (lit ''Tr0ub4dor&3XyZ'') = Inr
     \<lparr>errors = [], warnings = [Sequential], score = 80, valid = True, strength = Strong,
      entropy = round2 (calculate_entropy latin1 (lit ''Tr0ub4dor&3XyZ''))\<rparr>
   \<and> validate_password latin1 app_module (lit ''hello'') = Inr
     \<lparr>errors = [TooShort, NoUpper, NoDigit, NoSpecial, TooCommon, FewClasses,
                LowEntropy (calculate_entropy latin1 (lit ''hello''))],
      warnings = [], score = 15, valid = False, strength = Weak,
      entropy = round2 (calculate_entropy latin1 (lit ''hello''))\<rparr>"
proof -
  from strength_by_errors_and_score [OF run_Tr0ub4dor] strength_by_errors_and_score [OF run_hello]
  show ?thesis using run_Tr0ub4dor run_hello by blast
qed

text \<open>
  C8. The keyboard-walk rule appends its warning if and only if the lowercased password
  contains an entry of the keyboard-walk list, or the reverse of one, as a substring.
  It appends the warning once and deducts 10, floored at 0, once, however many entries
  match; the returned verdict has the warning once or not at all.
\<close>

theorem keyboard_walk_warns_once:
  "rule11_keyboard_walk U M p st =
     (if \<exists>w \<in> set (KEYBOARD_WALKS M).
           sublist w (str_lower U p) \<or> sublist (rev w) (str_lower U p)
      then st\<lparr>warnings := warnings st @ [KeyboardWalk], score := max 0 (score st - 10)\<rparr>
      else st)
   \<and> (validate_password U M p = Inr v \<longrightarrow>
        count_list (warnings v) KeyboardWalk =
          (if \<exists>w \<in> set (KEYBOARD_WALKS M).
                sublist w (str_lower U p) \<or> sublist (rev w) (str_lower U p)
           then 1 else 0))"
  using rule11_eq walk_warning_count by blast

theorem keyboard_walk_warns_once_witness:
  "filter (\<lambda>w. sublist w (str_lower latin1 (lit ''Qwertyu#7Zxcvbn''))) (KEYBOARD_WALKS app_module)
     = map lit [''qwerty'', ''zxcvbn'', ''qwertyu'']
   \<and> rule11_keyboard_walk latin1 app_module (lit ''Qwertyu#7Zxcvbn'')
        \<lparr>errors = [], warnings = [], score = 60\<rparr>
     = \<lparr>errors = [], warnings = [KeyboardWalk], score = 50\<rparr>
   \<and> validate_password latin1 app_module (lit ''Qwertyu#7Zxcvbn'') = Inr
     \<lparr>errors = [], warnings = [KeyboardWalk], score = 75, valid = True, strength = Strong,
      entropy = round2 (calculate_entropy latin1 (lit ''Qwertyu#7Zxcvbn''))\<rparr>
   \<and> count_list [KeyboardWalk] KeyboardWalk = 1
   \<and> rule11_keyboard_walk latin1 app_module (lit ''Tr0ub4dor&3XyZ'')
        \<lparr>errors = [], warnings = [], score = 60\<rparr>
     = \<lparr>errors = [], warnings = [], score = 60\<rparr>"
proof -
  note t = keyboard_walk_warns_once [of latin1 app_module "lit ''Qwertyu#7Zxcvbn''"
      "\<lparr>errors = [], warnings = [], score = 60\<rparr>"]
  have a: "filter (\<lambda>w. sublist w (str_lower latin1 (lit ''Qwertyu#7Zxcvbn''))) (KEYBOARD_WALKS app_module)
     = map lit [''qwerty'', ''zxcvbn'', ''qwertyu'']"
    using walks_Qwertyu by (simp add: str_in_iff_sublist)
  have b: "rule11_keyboard_walk latin1 app_module (lit ''Qwertyu#7Zxcvbn'')
        \<lparr>errors = [], warnings = [], score = 60\<rparr>
     = \<lparr>errors = [], warnings = [KeyboardWalk], score = 50\<rparr>"
    using t [THEN conjunct1] hit_Qwertyu by simp
  have c: "count_list [KeyboardWalk] KeyboardWalk = 1"
    using t [THEN conjunct2, rule_format, OF run_Qwertyu] hit_Qwertyu by simp
  have no: "\<not> (\<exists>w \<in> set (KEYBOARD_WALKS app_module).
      sublist w (str_lower latin1 (lit ''Tr0ub4dor&3XyZ''))
      \<or> sublist (rev w) (str_lower latin1 (lit ''Tr0ub4dor&3XyZ'')))"
    by (simp add: str_in_iff_sublist [symmetric]) (simp add: table_defs)
  have d: "rule11_keyboard_walk latin1 app_module (lit ''Tr0ub4dor&3XyZ'')
        \<lparr>errors = [], warnings = [], score = 60\<rparr>
     = \<lparr>errors = [], warnings = [], score = 60\<rparr>"
    using keyboard_walk_warns_once [of latin1 app_module "lit ''Tr0ub4dor&3XyZ''"
      "\<lparr>errors = [], warnings = [], score = 60\<rparr>", THEN conjunct1] no by simp
  from a b c d run_Qwertyu show ?thesis by blast
qed

text \<open>
  C9. Evaluation is deterministic and stateless. Take any interpreter state, invoke
  \<open>validate_password\<close> on a password, and invoke it again on the same password in the
  state the first call left. The second call returns a record identical to the first,
  field by field, with the lists read from the heap; the record of the first call reads
  the same after the second call as before it, since each call appends to lists of its
  own; the module globals are as they were; and the record is the verdict of the
  functional reading above, a function of the password, the two globals and the
  Unicode tables alone.
\<close>

theorem two_invocations_identical:
  assumes "validate_password_h U p s = (r1, s1)"
    and "validate_password_h U p s1 = (r2, s2)"
  shows "read_result s2 r2 = read_result s1 r1
       \<and> read_result s2 r1 = read_result s1 r1
       \<and> globals s2 = globals s
       \<and> read_result s1 r1 = dict_of (validate_password U (globals s) p)"
proof -
  note a = validate_password_h_refines [OF assms(1)]
  note b = validate_password_h_refines [OF assms(2)]
  from a(2) b(2) have g: "globals s1 = globals s" "globals s2 = globals s"
      and n: "next_ref s1 = next_ref s + 2"
    by (simp_all add: call_frame_def)
  from a(1) b(1) g have "read_result s2 r2 = read_result s1 r1" by simp
  moreover have "read_result s2 r1 = read_result s1 r1"
    using b(2) a(3) n by (intro read_result_frame) simp_all
  ultimately show ?thesis using g a(1) by simp
qed

theorem two_invocations_identical_witness:
  "read_result
     (snd (validate_password_h latin1 (lit ''Tr0ub4dor&3XyZ'')
        \<lparr>globals = app_module, heap = Map.empty, next_ref = 0\<rparr>))
     (fst (validate_password_h latin1 (lit ''Tr0ub4dor&3XyZ'')
        \<lparr>globals = app_module, heap = Map.empty, next_ref = 0\<rparr>))
   = Inr \<lparr>valid_d = True, score_d = 80, strength_d = Strong,
          entropy_d = round2 (calculate_entropy latin1 (lit ''Tr0ub4dor&3XyZ'')),
          errors_d = [], warnings_d = [Warn Sequential]\<rparr>
   \<and> read_result
     (snd (validate_password_h latin1 (lit ''Tr0ub4dor&3XyZ'')
        (snd (validate_password_h latin1 (lit ''Tr0ub4dor&3XyZ'')
           \<lparr>globals = app_module, heap = Map.empty, next_ref = 0\<rparr>))))
     (fst (validate_password_h latin1 (lit ''Tr0ub4dor&3XyZ'')
        (snd (validate_password_h latin1 (lit ''Tr0ub4dor&3XyZ'')
           \<lparr>globals = app_module, heap = Map.empty, next_ref = 0\<rparr>))))
   = Inr \<lparr>valid_d = True, score_d = 80, strength_d = Strong,
          entropy_d = round2 (calculate_entropy latin1 (lit ''Tr0ub4dor&3XyZ'')),
          errors_d = [], warnings_d = [Warn Sequential]\<rparr>
   \<and> read_result
     (snd (validate_password_h latin1 (lit ''Tr0ub4dor&3XyZ'')
        (snd (validate_password_h latin1 (lit ''Tr0ub4dor&3XyZ'')
           \<lparr>globals = app_module, heap = Map.empty, next_ref = 0\<rparr>))))
     (fst (validate_password_h latin1 (lit ''Tr0ub4dor&3XyZ'')
        \<lparr>globals = app_module, heap = Map.empty, next_ref = 0\<rparr>))
   = Inr \<lparr>valid_d = True, score_d = 80, strength_d = Strong,
          entropy_d = round2 (calculate_entropy latin1 (lit ''Tr0ub4dor&3XyZ'')),
          errors_d = [], warnings_d = [Warn Sequential]\<rparr>
   \<and> globals
     (snd (validate_password_h latin1 (lit ''Tr0ub4dor&3XyZ'')
        (snd (validate_password_h latin1 (lit ''Tr0ub4dor&3XyZ'')
           \<lparr>globals = app_module, heap = Map.empty, next_ref = 0\<rparr>))))
   = app_module"
proof -
  let ?s = "\<lparr>globals = app_module, heap = Map.empty, next_ref = 0\<rparr>"
  let ?A = "validate_password_h latin1 (lit ''Tr0ub4dor&3XyZ'') ?s"
  let ?B = "validate_password_h latin1 (lit ''Tr0ub4dor&3XyZ'') (snd ?A)"
  have a: "?A = (fst ?A, snd ?A)" and b: "?B = (fst ?B, snd ?B)" by simp_all
  note t = two_invocations_identical [OF a b]
  have "read_result (snd ?A) (fst ?A) =
      dict_of (validate_password latin1 app_module (lit ''Tr0ub4dor&3XyZ''))"
    using validate_password_h_refines(1) [OF a] by simp
  then have 1: "read_result (snd ?A) (fst ?A) =
      Inr \<lparr>valid_d = True, score_d = 80, strength_d = Strong,
          entropy_d = round2 (calculate_entropy latin1 (lit ''Tr0ub4dor&3XyZ'')),
          errors_d = [], warnings_d = [Warn Sequential]\<rparr>"
    by (simp add: run_Tr0ub4dor dict_of_def)
  with t show ?thesis by simp
qed

text \<open>
  C10. For every password whose verdict has \<open>valid = True\<close>, the score is at least 50
  and the strength is not Weak: it is Moderate, Strong or Very Strong.
\<close>

theorem valid_scores_at_least_50:
  assumes "validate_password U M p = Inr v" and "valid v"
  shows "50 \<le> score v \<and> strength v \<in> {Moderate, Strong, VeryStrong}"
proof -
  from assms have "50 \<le> score v" and "strength v \<noteq> Weak"
    using valid_verdict_score by blast+
  then show ?thesis by (cases "strength v") simp_all
qed

theorem valid_scores_at_least_50_witness:
  "validate_password latin1 app_module (lit ''Qwertyu#7Zxcvbn'') = Inr
     \<lparr>errors = [], warnings = [KeyboardWalk], score = 75, valid = True, strength = Strong,
      entropy = round2 (calculate_entropy latin1 (lit ''Qwertyu#7Zxcvbn''))\<rparr>
   \<and> (50::int) \<le> 75 \<and> Strong \<in> {Moderate, Strong, VeryStrong}"
proof -
  have "valid \<lparr>errors = [], warnings = [KeyboardWalk], score = 75, valid = True, strength = Strong,
      entropy = round2 (calculate_entropy latin1 (lit ''Qwertyu#7Zxcvbn''))\<rparr>"
    by simp
  from valid_scores_at_least_50 [OF run_Qwertyu this] run_Qwertyu
  show ?thesis by simp
qed

end
